theory Spec2Isabelle
  imports Main "HOL-Library.Sublist"
begin

section \<open>The XML tree read by the decoder\<close>

text \<open>
  \<open>QXmppMessage::parse\<close> reads a \<open>QDomElement\<close>. A node of the tree is an element
  (tag name, namespace URI, attributes in document order, child nodes) or a piece of text.
  A null \<open>QDomElement\<close> is \<open>None\<close> of type \<open>node option\<close>.
\<close>

datatype node =
    Element string string "(string \<times> string) list" "node list"
  | Text string

fun children :: "node \<Rightarrow> node list" where
  "children (Element _ _ _ ks) = ks"
| "children (Text _) = []"

fun isElementNamed :: "string \<Rightarrow> node \<Rightarrow> bool" where
  "isElementNamed n (Element t _ _ _) = (t = n)"
| "isElementNamed n (Text _) = False"

text \<open>\<open>QDomNode::firstChildElement(name)\<close>: the first child element with that tag name,
  whatever its namespace; null when there is none.\<close>

definition firstChildElement :: "node \<Rightarrow> string \<Rightarrow> node option" where
  "firstChildElement e n = find (isElementNamed n) (children e)"

text \<open>\<open>QDomElement::namespaceURI()\<close>; the null element has the empty namespace.\<close>

fun namespaceURI :: "node option \<Rightarrow> string" where
  "namespaceURI (Some (Element _ ns _ _)) = ns"
| "namespaceURI (Some (Text _)) = []"
| "namespaceURI None = []"

text \<open>\<open>QDomElement::attribute(name)\<close>: the value of the first attribute of that name,
  the empty string when the attribute is missing or the element is null.\<close>

fun attribute :: "node option \<Rightarrow> string \<Rightarrow> string" where
  "attribute (Some (Element _ _ as _)) n = (case map_of as n of Some v \<Rightarrow> v | None \<Rightarrow> [])"
| "attribute (Some (Text _)) n = []"
| "attribute None n = []"

text \<open>\<open>QDomElement::text()\<close>: the text of the element and of its descendants, in
  document order; empty for the null element.\<close>

fun nodeText :: "node \<Rightarrow> string" where
  "nodeText (Text s) = s"
| "nodeText (Element _ _ _ ks) = concat (map nodeText ks)"

definition elementText :: "node option \<Rightarrow> string" where
  "elementText e = (case e of None \<Rightarrow> [] | Some n \<Rightarrow> nodeText n)"

section \<open>The calls made on the XML writer\<close>

text \<open>
  \<open>QXmppMessage::toXml\<close> drives a \<open>QXmlStreamWriter\<close>. Its output is modelled as the
  sequence of calls it makes: \<open>writeStartElement\<close>, \<open>writeAttribute\<close>,
  \<open>writeCharacters\<close>, a raw write on the writer's device, \<open>writeEndElement\<close>.
\<close>

datatype event =
    StartElement string
  | Attribute string string
  | Characters string
  | RawBytes string
  | EndElement

text \<open>Modelled from the spec: \<open>helperToXmlAddAttribute\<close> of QXmppUtils is defined
  outside \<open>QXmppMessage.cpp\<close>; the attribute is written only when its value is not empty.\<close>

definition helperToXmlAddAttribute :: "string \<Rightarrow> string \<Rightarrow> event list" where
  "helperToXmlAddAttribute name v = (if v = [] then [] else [Attribute name v])"

text \<open>Modelled from the spec: \<open>helperToXmlAddTextElement\<close> of QXmppUtils is defined
  outside \<open>QXmppMessage.cpp\<close>; it writes a child element holding the text.\<close>

definition helperToXmlAddTextElement :: "string \<Rightarrow> string \<Rightarrow> event list" where
  "helperToXmlAddTextElement name v = [StartElement name, Characters v, EndElement]"

text \<open>The writer calls that reproduce a tree node as it stands: start tag, attributes in
  order, children, end tag.\<close>

fun nodeToXml :: "node \<Rightarrow> event list" where
  "nodeToXml (Text s) = [Characters s]"
| "nodeToXml (Element n ns as ks) =
     StartElement n # map (\<lambda>(k, v). Attribute k v) as @ concat (map nodeToXml ks) @ [EndElement]"

text \<open>Modelled from the spec: \<open>QXmppElement\<close> is defined outside \<open>QXmppMessage.cpp\<close>. An
  extension is an opaque copy of an element, preserved verbatim and written back verbatim.\<close>

datatype QXmppElement = QXmppElement node

fun QXmppElement_toXml :: "QXmppElement \<Rightarrow> event list" where
  "QXmppElement_toXml (QXmppElement n) = nodeToXml n"

subsection \<open>The bytes the writer produces\<close>

text \<open>
  \<open>QXmlStreamWriter\<close> writes to its device as it is called. It keeps the names of the
  open elements and whether the last start tag is still open: the tag is closed with \<open>>\<close>
  by the next start tag or text, and with \<open>/>\<close> by an end that follows it directly. Text
  and attribute values are escaped; a raw write on the device goes out as it is and leaves
  the state of the writer alone.
\<close>

definition escapeChar :: "bool \<Rightarrow> char \<Rightarrow> string" where
  "escapeChar escapeWhitespace c =
     (if c = CHR ''<'' then ''&lt;''
      else if c = CHR ''>'' then ''&gt;''
      else if c = CHR ''&'' then ''&amp;''
      else if c = CHR 0x22 then ''&quot;''
      else if escapeWhitespace \<and> c = CHR 0x0A then ''&#10;''
      else if escapeWhitespace \<and> c = CHR 0x0D then ''&#13;''
      else if escapeWhitespace \<and> c = CHR 0x09 then ''&#9;''
      else [c])"

definition writeEscaped :: "bool \<Rightarrow> string \<Rightarrow> string" where
  "writeEscaped escapeWhitespace s = concat (map (escapeChar escapeWhitespace) s)"

record writer =
  device :: string
  tagStack :: "string list"
  inStartElement :: bool

definition finishStartElement :: "writer \<Rightarrow> string" where
  "finishStartElement w = (if inStartElement w then ''>'' else [])"

definition attributeBytes :: "string \<times> string \<Rightarrow> string" where
  "attributeBytes = (\<lambda>(k, v). '' '' @ k @ ''='' @ [CHR 0x22] @ writeEscaped True v @ [CHR 0x22])"

fun writeEvent :: "writer \<Rightarrow> event \<Rightarrow> writer" where
  "writeEvent w (StartElement n) =
     \<lparr> device = device w @ finishStartElement w @ ''<'' @ n,
       tagStack = n # tagStack w,
       inStartElement = True \<rparr>"
| "writeEvent w (Attribute k v) = w\<lparr>device := device w @ attributeBytes (k, v)\<rparr>"
| "writeEvent w (Characters s) =
     w\<lparr> device := device w @ finishStartElement w @ writeEscaped False s,
        inStartElement := False \<rparr>"
| "writeEvent w (RawBytes s) = w\<lparr>device := device w @ s\<rparr>"
| "writeEvent w EndElement =
     (case tagStack w of
        [] \<Rightarrow> w
      | n # rest \<Rightarrow>
          \<lparr> device = device w @ (if inStartElement w then ''/>'' else ''</'' @ n @ ''>''),
            tagStack = rest,
            inStartElement = False \<rparr>)"

definition xml_bytes :: "event list \<Rightarrow> string" where
  "xml_bytes evs =
     device (foldl writeEvent \<lparr>device = [], tagStack = [], inStartElement = False\<rparr> evs)"

text \<open>The text of a tree node as the writer produces it.\<close>

fun node_bytes :: "node \<Rightarrow> string" where
  "node_bytes (Text s) = writeEscaped False s"
| "node_bytes (Element n ns as ks) =
     ''<'' @ n @ concat (map attributeBytes as) @
     (if ks = [] then ''/>'' else ''>'' @ concat (map node_bytes ks) @ ''</'' @ n @ ''>'')"

section \<open>Tables and constants\<close>

datatype Type = Error | Normal | Chat | GroupChat | Headline

datatype State = None_State | Active | Inactive | Gone | Composing | Paused

datatype StampType = LegacyDelayedDelivery | DelayedDelivery

fun message_types :: "Type \<Rightarrow> string" where
  "message_types Error = ''error''"
| "message_types Normal = ''normal''"
| "message_types Chat = ''chat''"
| "message_types GroupChat = ''groupchat''"
| "message_types Headline = ''headline''"

fun chat_states :: "State \<Rightarrow> string" where
  "chat_states None_State = []"
| "chat_states Active = ''active''"
| "chat_states Inactive = ''inactive''"
| "chat_states Gone = ''gone''"
| "chat_states Composing = ''composing''"
| "chat_states Paused = ''paused''"

text \<open>The position of a chat state in the \<open>State\<close> enumeration.\<close>

fun state_index :: "State \<Rightarrow> nat" where
  "state_index None_State = 0"
| "state_index Active = 1"
| "state_index Inactive = 2"
| "state_index Gone = 3"
| "state_index Composing = 4"
| "state_index Paused = 5"

text \<open>The range of the decoder's loops: the message types from \<open>Error\<close> to
  \<open>Headline\<close>, the chat states from \<open>Active\<close> to \<open>Paused\<close>.\<close>

definition known_types :: "Type list" where
  "known_types = [Error, Normal, Chat, GroupChat, Headline]"

definition known_states :: "State list" where
  "known_states = [Active, Inactive, Gone, Composing, Paused]"

definition ns_xhtml :: string where
  "ns_xhtml = ''http://www.w3.org/1999/xhtml''"

text \<open>Modelled from the spec: the namespace constants of QXmppConstants are defined
  outside \<open>QXmppMessage.cpp\<close>. There is one URI per protocol extension; the values are the ones
  registered by the extension protocols the source cites (XEP-0085, XEP-0071, XEP-0184,
  XEP-0203, XEP-0091, XEP-0224).\<close>

definition ns_chat_states :: string where
  "ns_chat_states = ''http://jabber.org/protocol/chatstates''"

definition ns_xhtml_im :: string where
  "ns_xhtml_im = ''http://jabber.org/protocol/xhtml-im''"

definition ns_message_receipts :: string where
  "ns_message_receipts = ''urn:xmpp:receipts''"

definition ns_delayed_delivery :: string where
  "ns_delayed_delivery = ''urn:xmpp:delay''"

definition ns_legacy_delayed_delivery :: string where
  "ns_legacy_delayed_delivery = ''jabber:x:delay''"

definition ns_attention :: string where
  "ns_attention = ''urn:xmpp:attention:0''"

section \<open>Library collaborators\<close>

text \<open>
  The date and time functions of Qt and of QXmppUtils, the serialiser of the XML tree and
  the error payload of the base stanza are defined outside \<open>QXmppMessage.cpp\<close>. They
  are taken as parameters: \<open>'t\<close> is a valid \<open>QDateTime\<close> (an invalid one is \<open>None\<close>), \<open>'e\<close> is
  the error payload of a stanza.
  \<^item> \<open>datetimeFromString\<close>, \<open>datetimeToString\<close>: \<open>QXmppUtils\<close>, the protocol's datetime
    format;
  \<^item> \<open>fromString str format\<close>, \<open>toString t format\<close>: \<open>QDateTime::fromString\<close> and
    \<open>QDateTime::toString\<close>;
  \<^item> \<open>setTimeSpecUTC\<close>, \<open>toUTC\<close>: \<open>QDateTime::setTimeSpec(Qt::UTC)\<close> and
    \<open>QDateTime::toUTC\<close> on a valid value (an invalid one stays invalid);
  \<^item> \<open>saveNode\<close>: the text \<open>QDomNode::save\<close> writes for an element;
  \<^item> \<open>errorFromDom\<close>: the error payload the base stanza reads from an element, if any;
  \<^item> \<open>errorToXml\<close>: the writer calls that emit an error payload.
\<close>

record ('t, 'e) lib =
  datetimeFromString :: "string \<Rightarrow> 't option"
  datetimeToString :: "'t \<Rightarrow> string"
  fromString :: "string \<Rightarrow> string \<Rightarrow> 't option"
  toString :: "'t \<Rightarrow> string \<Rightarrow> string"
  setTimeSpecUTC :: "'t \<Rightarrow> 't"
  toUTC :: "'t \<Rightarrow> 't"
  saveNode :: "node \<Rightarrow> string"
  errorFromDom :: "node \<Rightarrow> 'e option"
  errorToXml :: "'e \<Rightarrow> event list"

section \<open>String operations of QString used by the decoder\<close>

text \<open>\<open>QString::indexOf(ch)\<close>: the position of the first occurrence, \<open>-1\<close> when there is
  none.\<close>

definition indexOf :: "string \<Rightarrow> char \<Rightarrow> int" where
  "indexOf s c = (if c \<in> set s then int (length (takeWhile (\<lambda>x. x \<noteq> c) s)) else - 1)"

text \<open>\<open>QString::mid(position)\<close>: the rest of the string from that position, empty when the
  position is beyond the end.\<close>

definition mid :: "string \<Rightarrow> int \<Rightarrow> string" where
  "mid s pos = (if pos > int (length s) then [] else drop (nat pos) s)"

text \<open>\<open>QString::replace(before, after)\<close> for a non-empty \<open>before\<close>: every occurrence,
  found from left to right, is replaced.\<close>

function replace :: "string \<Rightarrow> string \<Rightarrow> string \<Rightarrow> string" where
  "replace before after s =
     (if s = [] \<or> before = [] then s
      else if prefix before s then after @ replace before after (drop (length before) s)
      else hd s # replace before after (tl s))"
  by pat_completeness auto
termination
  by (relation "measure (\<lambda>(b, a, s). length s)") auto

declare replace.simps [simp del]

definition isSpace :: "char \<Rightarrow> bool" where
  "isSpace c = (c \<in> set [CHR 0x20, CHR 0x09, CHR 0x0A, CHR 0x0B, CHR 0x0C, CHR 0x0D])"

text \<open>\<open>QString::trimmed()\<close>: white space removed at both ends.\<close>

definition trimmed :: "string \<Rightarrow> string" where
  "trimmed s = rev (dropWhile isSpace (rev (dropWhile isSpace s)))"

section \<open>The message value\<close>

text \<open>
  The fields of \<open>QXmppStanza\<close> (\<open>m_to\<close>, \<open>m_from\<close>, \<open>m_id\<close>, \<open>m_lang\<close>, \<open>m_error\<close>,
  \<open>m_extensions\<close>) followed by those of \<open>QXmppMessage\<close>.
\<close>

record ('t, 'e) QXmppMessage =
  m_to :: string
  m_from :: string
  m_id :: string
  m_lang :: string
  m_error :: "'e option"
  m_extensions :: "QXmppElement list"
  m_type :: Type
  m_stamp :: "'t option"
  m_stampType :: StampType
  m_state :: State
  m_attentionRequested :: bool
  m_body :: string
  m_subject :: string
  m_thread :: string
  m_xhtml :: string
  m_receiptId :: string
  m_receiptRequested :: bool

text \<open>The constructor \<open>QXmppMessage(from, to, body, thread)\<close>. The members it does not
  name are default-constructed: empty strings, an invalid time stamp, no error, no
  extension.\<close>

definition QXmppMessage_new ::
  "string \<Rightarrow> string \<Rightarrow> string \<Rightarrow> string \<Rightarrow> ('t, 'e) QXmppMessage" where
  "QXmppMessage_new from to body thread =
     \<lparr> m_to = to, m_from = from, m_id = [], m_lang = [], m_error = None, m_extensions = [],
       m_type = Chat,
       m_stamp = None,
       m_stampType = DelayedDelivery,
       m_state = None_State,
       m_attentionRequested = False,
       m_body = body,
       m_subject = [],
       m_thread = thread,
       m_xhtml = [],
       m_receiptId = [],
       m_receiptRequested = False \<rparr>"

subsection \<open>Setters\<close>

definition setBody :: "string \<Rightarrow> ('t, 'e) QXmppMessage \<Rightarrow> ('t, 'e) QXmppMessage" where
  "setBody body m = m\<lparr>m_body := body\<rparr>"

definition setAttentionRequested :: "bool \<Rightarrow> ('t, 'e) QXmppMessage \<Rightarrow> ('t, 'e) QXmppMessage" where
  "setAttentionRequested requested m = m\<lparr>m_attentionRequested := requested\<rparr>"

definition setReceiptId :: "string \<Rightarrow> ('t, 'e) QXmppMessage \<Rightarrow> ('t, 'e) QXmppMessage" where
  "setReceiptId i m = m\<lparr>m_receiptId := i\<rparr>"

definition setType :: "Type \<Rightarrow> ('t, 'e) QXmppMessage \<Rightarrow> ('t, 'e) QXmppMessage" where
  "setType t m = m\<lparr>m_type := t\<rparr>"

definition setStamp :: "'t option \<Rightarrow> ('t, 'e) QXmppMessage \<Rightarrow> ('t, 'e) QXmppMessage" where
  "setStamp stamp m = m\<lparr>m_stamp := stamp\<rparr>"

definition setState :: "State \<Rightarrow> ('t, 'e) QXmppMessage \<Rightarrow> ('t, 'e) QXmppMessage" where
  "setState state m = m\<lparr>m_state := state\<rparr>"

definition setSubject :: "string \<Rightarrow> ('t, 'e) QXmppMessage \<Rightarrow> ('t, 'e) QXmppMessage" where
  "setSubject subject m = m\<lparr>m_subject := subject\<rparr>"

definition setThread :: "string \<Rightarrow> ('t, 'e) QXmppMessage \<Rightarrow> ('t, 'e) QXmppMessage" where
  "setThread thread m = m\<lparr>m_thread := thread\<rparr>"

definition setXhtml :: "string \<Rightarrow> ('t, 'e) QXmppMessage \<Rightarrow> ('t, 'e) QXmppMessage" where
  "setXhtml xhtml m = m\<lparr>m_xhtml := xhtml\<rparr>"

text \<open>Modelled from the spec: \<open>generateAndSetNextId\<close> of QXmppStanza is defined
  outside \<open>QXmppMessage.cpp\<close>. It assigns a fresh unique id: the model numbers the ids with a counter
  shared by all stanzas, which is threaded through the call, and writes the number in
  decimal after a fixed prefix.\<close>

definition digit :: "nat \<Rightarrow> char" where
  "digit d = ''0123456789'' ! (d mod 10)"

fun decimal :: "nat \<Rightarrow> string" where
  "decimal n = (if n < 10 then [digit n] else decimal (n div 10) @ [digit n])"

declare decimal.simps [simp del]

definition generateAndSetNextId ::
  "nat \<times> ('t, 'e) QXmppMessage \<Rightarrow> nat \<times> ('t, 'e) QXmppMessage" where
  "generateAndSetNextId = (\<lambda>(uniqueIdNo, m).
     (Suc uniqueIdNo, m\<lparr>m_id := ''qxmpp'' @ decimal (Suc uniqueIdNo)\<rparr>))"

text \<open>\<open>setReceiptRequested\<close>, on the pair of the id counter and the message.\<close>

definition setReceiptRequested ::
  "bool \<Rightarrow> nat \<times> ('t, 'e) QXmppMessage \<Rightarrow> nat \<times> ('t, 'e) QXmppMessage" where
  "setReceiptRequested requested = (\<lambda>(uniqueIdNo, m).
     let m' = m\<lparr>m_receiptRequested := requested\<rparr>
     in if requested \<and> m_id m' = [] then generateAndSetNextId (uniqueIdNo, m')
        else (uniqueIdNo, m'))"

section \<open>The decoder: \<open>QXmppMessage::parse\<close>\<close>

text \<open>Modelled from the spec: \<open>QXmppStanza::parse\<close> is defined outside \<open>QXmppMessage.cpp\<close>.
  The base stanza reads \<open>id\<close>, \<open>to\<close>, \<open>from\<close>, the language and the error payload from
  the element; the attributes have the names the encoder writes.\<close>

definition QXmppStanza_parse ::
  "('t, 'e) lib \<Rightarrow> node \<Rightarrow> ('t, 'e) QXmppMessage \<Rightarrow> ('t, 'e) QXmppMessage" where
  "QXmppStanza_parse L element m =
     m\<lparr> m_from := attribute (Some element) ''from'',
        m_to := attribute (Some element) ''to'',
        m_id := attribute (Some element) ''id'',
        m_lang := attribute (Some element) ''xml:lang'',
        m_error := errorFromDom L element \<rparr>"

text \<open>The loop over \<open>message_types\<close>: the first entry equal to the attribute wins,
  \<open>Normal\<close> when none is.\<close>

definition parse_type :: "node \<Rightarrow> ('t, 'e) QXmppMessage \<Rightarrow> ('t, 'e) QXmppMessage" where
  "parse_type element m =
     (let type = attribute (Some element) ''type''
      in case find (\<lambda>i. type = message_types i) known_types of
           Some i \<Rightarrow> m\<lparr>m_type := i\<rparr>
         | None \<Rightarrow> m\<lparr>m_type := Normal\<rparr>)"

definition parse_texts :: "node \<Rightarrow> ('t, 'e) QXmppMessage \<Rightarrow> ('t, 'e) QXmppMessage" where
  "parse_texts element m =
     m\<lparr> m_body := elementText (firstChildElement element ''body''),
        m_subject := elementText (firstChildElement element ''subject''),
        m_thread := elementText (firstChildElement element ''thread'') \<rparr>"

text \<open>The test made on each chat state: the first child of that name is there and is in
  the chat-states namespace.\<close>

definition state_matches :: "node \<Rightarrow> State \<Rightarrow> bool" where
  "state_matches element i =
     (let stateElement = firstChildElement element (chat_states i)
      in stateElement \<noteq> None \<and> namespaceURI stateElement = ns_chat_states)"

text \<open>The loop from \<open>Active\<close> to \<open>Paused\<close>: the first state that matches is stored and
  the loop is left; with no match the field is not written.\<close>

definition parse_chat_state :: "node \<Rightarrow> ('t, 'e) QXmppMessage \<Rightarrow> ('t, 'e) QXmppMessage" where
  "parse_chat_state element m =
     (case find (state_matches element) known_states of
        Some i \<Rightarrow> m\<lparr>m_state := i\<rparr>
      | None \<Rightarrow> m)"

definition xmlns_xhtml_decl :: string where
  "xmlns_xhtml_decl = '' xmlns='' @ [CHR 0x22] @ ''http://www.w3.org/1999/xhtml'' @ [CHR 0x22]"

text \<open>XEP-0071. The text stream opened on \<open>m_xhtml\<close> appends what \<open>save\<close> writes to the
  string's content; the code then cuts the opening tag, the namespace declaration and the
  closing tag.\<close>

definition parse_xhtml ::
  "('t, 'e) lib \<Rightarrow> node \<Rightarrow> ('t, 'e) QXmppMessage \<Rightarrow> ('t, 'e) QXmppMessage" where
  "parse_xhtml L element m =
     (case firstChildElement element ''html'' of
        None \<Rightarrow> m
      | Some htmlElement \<Rightarrow>
          if namespaceURI (Some htmlElement) = ns_xhtml_im then
            (case firstChildElement htmlElement ''body'' of
               None \<Rightarrow> m
             | Some bodyElement \<Rightarrow>
                 if namespaceURI (Some bodyElement) = ns_xhtml then
                   (let s0 = m_xhtml m @ saveNode L bodyElement;
                        s1 = mid s0 (indexOf s0 (CHR ''>'') + 1);
                        s2 = replace xmlns_xhtml_decl [] s1;
                        s3 = replace ''</body>'' [] s2
                    in m\<lparr>m_xhtml := trimmed s3\<rparr>)
                 else m)
          else m)"

text \<open>XEP-0184. \<open>id()\<close> is the id the base stanza has just read.\<close>

definition parse_receipts :: "node \<Rightarrow> ('t, 'e) QXmppMessage \<Rightarrow> ('t, 'e) QXmppMessage" where
  "parse_receipts element m =
     (let receivedElement = firstChildElement element ''received'';
          m1 = (if receivedElement \<noteq> None \<and> namespaceURI receivedElement = ns_message_receipts
                then (let m2 = m\<lparr>m_receiptId := attribute receivedElement ''id''\<rparr>
                      in if m_receiptId m2 = [] then m2\<lparr>m_receiptId := m_id m2\<rparr> else m2)
                else m\<lparr>m_receiptId := []\<rparr>)
      in m1\<lparr>m_receiptRequested :=
             (namespaceURI (firstChildElement element ''request'') = ns_message_receipts)\<rparr>)"

text \<open>XEP-0203.\<close>

definition parse_delay ::
  "('t, 'e) lib \<Rightarrow> node \<Rightarrow> ('t, 'e) QXmppMessage \<Rightarrow> ('t, 'e) QXmppMessage" where
  "parse_delay L element m =
     (let delayElement = firstChildElement element ''delay''
      in if delayElement \<noteq> None \<and> namespaceURI delayElement = ns_delayed_delivery
         then m\<lparr> m_stamp := datetimeFromString L (attribute delayElement ''stamp''),
                 m_stampType := DelayedDelivery \<rparr>
         else m)"

text \<open>XEP-0224.\<close>

definition parse_attention :: "node \<Rightarrow> ('t, 'e) QXmppMessage \<Rightarrow> ('t, 'e) QXmppMessage" where
  "parse_attention element m =
     m\<lparr>m_attentionRequested :=
         (namespaceURI (firstChildElement element ''attention'') = ns_attention)\<rparr>"

definition legacy_format :: string where
  "legacy_format = ''yyyyMMddThh:mm:ss''"

text \<open>The \<open>while\<close> loop over the children named \<open>x\<close>, from the first one through
  \<open>nextSiblingElement("x")\<close>: it runs over the children in document order and skips the
  others. The accumulator is the message (its time stamp) and the local list
  \<open>extensions\<close>.\<close>

text \<open>The time stamp read from a legacy delay element: \<open>QDateTime::fromString\<close> with
  the fixed pattern, then \<open>setTimeSpec(Qt::UTC)\<close>.\<close>

definition legacy_stamp :: "('t, 'e) lib \<Rightarrow> node \<Rightarrow> 't option" where
  "legacy_stamp L xElement =
     map_option (setTimeSpecUTC L)
       (fromString L (attribute (Some xElement) ''stamp'') legacy_format)"

fun scan_x ::
  "('t, 'e) lib \<Rightarrow> node list \<Rightarrow> ('t, 'e) QXmppMessage \<times> QXmppElement list \<Rightarrow>
   ('t, 'e) QXmppMessage \<times> QXmppElement list" where
  "scan_x L [] (m, extensions) = (m, extensions)"
| "scan_x L (xElement # rest) (m, extensions) =
     (if isElementNamed ''x'' xElement then
        (if namespaceURI (Some xElement) = ns_legacy_delayed_delivery then
           scan_x L rest
             (m\<lparr> m_stamp := legacy_stamp L xElement,
                 m_stampType := LegacyDelayedDelivery \<rparr>, extensions)
         else scan_x L rest (m, extensions @ [QXmppElement xElement]))
      else scan_x L rest (m, extensions))"

definition parse_x ::
  "('t, 'e) lib \<Rightarrow> node \<Rightarrow> ('t, 'e) QXmppMessage \<Rightarrow> ('t, 'e) QXmppMessage" where
  "parse_x L element m =
     (case scan_x L (children element) (m, []) of
        (m', extensions) \<Rightarrow> m'\<lparr>m_extensions := extensions\<rparr>)"

definition parse ::
  "('t, 'e) lib \<Rightarrow> node \<Rightarrow> ('t, 'e) QXmppMessage \<Rightarrow> ('t, 'e) QXmppMessage" where
  "parse L element m =
     parse_x L element
       (parse_attention element
         (parse_delay L element
           (parse_receipts element
             (parse_xhtml L element
               (parse_chat_state element
                 (parse_texts element
                   (parse_type element
                     (QXmppStanza_parse L element m))))))))"

text \<open>The spec's \<open>decode\<close>: a message constructed with the default arguments, then
  \<open>parse\<close>.\<close>

definition decode :: "('t, 'e) lib \<Rightarrow> node \<Rightarrow> ('t, 'e) QXmppMessage" where
  "decode L element = parse L element (QXmppMessage_new [] [] [] [])"

section \<open>The encoder: \<open>QXmppMessage::toXml\<close>\<close>

definition toXml_attributes :: "('t, 'e) QXmppMessage \<Rightarrow> event list" where
  "toXml_attributes m =
     helperToXmlAddAttribute ''xml:lang'' (m_lang m) @
     helperToXmlAddAttribute ''id'' (m_id m) @
     helperToXmlAddAttribute ''to'' (m_to m) @
     helperToXmlAddAttribute ''from'' (m_from m) @
     helperToXmlAddAttribute ''type'' (message_types (m_type m))"

definition toXml_texts :: "('t, 'e) QXmppMessage \<Rightarrow> event list" where
  "toXml_texts m =
     (if m_subject m \<noteq> [] then helperToXmlAddTextElement ''subject'' (m_subject m) else []) @
     (if m_body m \<noteq> [] then helperToXmlAddTextElement ''body'' (m_body m) else []) @
     (if m_thread m \<noteq> [] then helperToXmlAddTextElement ''thread'' (m_thread m) else [])"

definition toXml_error :: "('t, 'e) lib \<Rightarrow> ('t, 'e) QXmppMessage \<Rightarrow> event list" where
  "toXml_error L m = (case m_error m of None \<Rightarrow> [] | Some err \<Rightarrow> errorToXml L err)"

definition toXml_chat_state :: "('t, 'e) QXmppMessage \<Rightarrow> event list" where
  "toXml_chat_state m =
     (if state_index (m_state m) > state_index None_State \<and>
         state_index (m_state m) \<le> state_index Paused
      then [StartElement (chat_states (m_state m)), Attribute ''xmlns'' ns_chat_states, EndElement]
      else [])"

definition toXml_xhtml :: "('t, 'e) QXmppMessage \<Rightarrow> event list" where
  "toXml_xhtml m =
     (if m_xhtml m \<noteq> [] then
        [StartElement ''html'', Attribute ''xmlns'' ns_xhtml_im,
         StartElement ''body'', Attribute ''xmlns'' ns_xhtml,
         Characters [], RawBytes (m_xhtml m),
         EndElement, EndElement]
      else [])"

definition toXml_stamp :: "('t, 'e) lib \<Rightarrow> ('t, 'e) QXmppMessage \<Rightarrow> event list" where
  "toXml_stamp L m =
     (case m_stamp m of
        None \<Rightarrow> []
      | Some stamp \<Rightarrow>
          (let utcStamp = toUTC L stamp
           in if m_stampType m = DelayedDelivery then
                [StartElement ''delay'', Attribute ''xmlns'' ns_delayed_delivery] @
                helperToXmlAddAttribute ''stamp'' (datetimeToString L utcStamp) @
                [EndElement]
              else
                [StartElement ''x'', Attribute ''xmlns'' ns_legacy_delayed_delivery] @
                helperToXmlAddAttribute ''stamp'' (toString L utcStamp legacy_format) @
                [EndElement]))"

definition toXml_received :: "('t, 'e) QXmppMessage \<Rightarrow> event list" where
  "toXml_received m =
     (if m_receiptId m \<noteq> [] then
        [StartElement ''received'', Attribute ''xmlns'' ns_message_receipts,
         Attribute ''id'' (m_receiptId m), EndElement]
      else [])"

definition toXml_request :: "('t, 'e) QXmppMessage \<Rightarrow> event list" where
  "toXml_request m =
     (if m_receiptRequested m then
        [StartElement ''request'', Attribute ''xmlns'' ns_message_receipts, EndElement]
      else [])"

definition toXml_attention :: "('t, 'e) QXmppMessage \<Rightarrow> event list" where
  "toXml_attention m =
     (if m_attentionRequested m then
        [StartElement ''attention'', Attribute ''xmlns'' ns_attention, EndElement]
      else [])"

definition toXml_extensions :: "('t, 'e) QXmppMessage \<Rightarrow> event list" where
  "toXml_extensions m = concat (map QXmppElement_toXml (m_extensions m))"

definition toXml :: "('t, 'e) lib \<Rightarrow> ('t, 'e) QXmppMessage \<Rightarrow> event list" where
  "toXml L m =
     [StartElement ''message''] @
     toXml_attributes m @
     toXml_texts m @
     toXml_error L m @
     toXml_chat_state m @
     toXml_xhtml m @
     toXml_stamp L m @
     toXml_received m @
     toXml_request m @
     toXml_attention m @
     toXml_extensions m @
     [EndElement]"

section \<open>Notions used to state the properties\<close>

text \<open>The element has a child element of that name in that namespace.\<close>

definition hasChild :: "node \<Rightarrow> string \<Rightarrow> string \<Rightarrow> bool" where
  "hasChild e name ns =
     list_ex (\<lambda>c. isElementNamed name c \<and> namespaceURI (Some c) = ns) (children e)"

text \<open>The children named \<open>x\<close> in the legacy delayed-delivery namespace, and the other
  children named \<open>x\<close>, both in document order.\<close>

definition legacy_x_children :: "node \<Rightarrow> node list" where
  "legacy_x_children e =
     filter (\<lambda>c. isElementNamed ''x'' c \<and> namespaceURI (Some c) = ns_legacy_delayed_delivery)
       (children e)"

definition opaque_x_children :: "node \<Rightarrow> node list" where
  "opaque_x_children e =
     filter (\<lambda>c. isElementNamed ''x'' c \<and> namespaceURI (Some c) \<noteq> ns_legacy_delayed_delivery)
       (children e)"

text \<open>The tests the decoder makes for the modern delay element and for the receipt: the
  first child of that name is there and is in the extension's namespace.\<close>

definition modern_delay_found :: "node \<Rightarrow> bool" where
  "modern_delay_found e =
     (firstChildElement e ''delay'' \<noteq> None \<and>
      namespaceURI (firstChildElement e ''delay'') = ns_delayed_delivery)"

definition received_found :: "node \<Rightarrow> bool" where
  "received_found e =
     (firstChildElement e ''received'' \<noteq> None \<and>
      namespaceURI (firstChildElement e ''received'') = ns_message_receipts)"

text \<open>The XHTML body the decoder leaves in a message whose XHTML body was \<open>old\<close>.\<close>

definition xhtml_after :: "('t, 'e) lib \<Rightarrow> node \<Rightarrow> string \<Rightarrow> string" where
  "xhtml_after L e old =
     m_xhtml (parse_xhtml L e ((QXmppMessage_new [] [] [] [])\<lparr>m_xhtml := old\<rparr>))"


text \<open>An \<open>x\<close> child in the legacy delayed-delivery namespace.\<close>

definition is_legacy_delay :: "node \<Rightarrow> bool" where
  "is_legacy_delay c =
     (isElementNamed ''x'' c \<and> namespaceURI (Some c) = ns_legacy_delayed_delivery)"

text \<open>The stamp of the delay child that decides the decoded time stamp, as the parser of
  its kind reads it: the last \<open>x\<close> child in the legacy namespace when there is one,
  otherwise the first child named \<open>delay\<close> when it is in the modern namespace. The result
  is \<open>None\<close> when the element has no deciding delay child, \<open>Some None\<close> when the stamp
  of the deciding child cannot be parsed.\<close>

definition deciding_stamp :: "('t, 'e) lib \<Rightarrow> node \<Rightarrow> 't option option" where
  "deciding_stamp L e =
     (case legacy_x_children e of
        [] \<Rightarrow>
          if modern_delay_found e
          then Some (datetimeFromString L (attribute (firstChildElement e ''delay'') ''stamp''))
          else None
      | l # ls \<Rightarrow> Some (legacy_stamp L (last (l # ls))))"

text \<open>One list of writer calls occurs in the output and another occurs after it:
  \<open>find_after\<close> returns what follows the first occurrence of a list of calls.\<close>

fun find_after :: "'a list \<Rightarrow> 'a list \<Rightarrow> 'a list option" where
  "find_after pat [] = (if pat = [] then Some [] else None)"
| "find_after pat (x # xs) =
     (if prefix pat (x # xs) then Some (drop (length pat) (x # xs)) else find_after pat xs)"

definition emitted_in_order :: "'a list \<Rightarrow> 'a list \<Rightarrow> 'a list \<Rightarrow> bool" where
  "emitted_in_order a b out =
     (case find_after a out of None \<Rightarrow> False | Some rest \<Rightarrow> find_after b rest \<noteq> None)"

definition received_child :: "string \<Rightarrow> event list" where
  "received_child i =
     [StartElement ''received'', Attribute ''xmlns'' ns_message_receipts, Attribute ''id'' i,
      EndElement]"

definition attention_child :: "event list" where
  "attention_child = [StartElement ''attention'', Attribute ''xmlns'' ns_attention, EndElement]"

subsection \<open>The layout of a stanza written by the encoder\<close>
















section \<open>Samples\<close>

subsection \<open>A sample collaborator\<close>

text \<open>
  A concrete instance of the library parameters, on which the model is evaluated at sample
  stanzas. A time stamp is kept as its UTC text \<open>yyyyMMddThh:mm:ss\<close>; the legacy format
  accepts exactly the strings of that shape, the protocol's format the strings
  \<open>yyyy-MM-ddThh:mm:ssZ\<close>. An element is saved as the text the writer produces for it.
  There is no error payload.
\<close>

definition isDigit :: "char \<Rightarrow> bool" where
  "isDigit c = (c \<in> set ''0123456789'')"

definition is_legacy_stamp :: "string \<Rightarrow> bool" where
  "is_legacy_stamp s =
     (length s = 17 \<and> list_all isDigit (take 8 s) \<and> take 1 (drop 8 s) = ''T'' \<and>
      list_all isDigit (take 2 (drop 9 s)) \<and> take 1 (drop 11 s) = '':'' \<and>
      list_all isDigit (take 2 (drop 12 s)) \<and> take 1 (drop 14 s) = '':'' \<and>
      list_all isDigit (drop 15 s))"

definition modern_of_legacy :: "string \<Rightarrow> string" where
  "modern_of_legacy s = take 4 s @ ''-'' @ take 2 (drop 4 s) @ ''-'' @ drop 6 s @ ''Z''"

definition legacy_of_modern :: "string \<Rightarrow> string" where
  "legacy_of_modern s = take 4 s @ take 2 (drop 5 s) @ take 11 (drop 8 s)"

definition sample_lib :: "(string, unit) lib" where
  "sample_lib =
     \<lparr> datetimeFromString =
         (\<lambda>s. if length s = 20 \<and> take 1 (drop 4 s) = ''-'' \<and> take 1 (drop 7 s) = ''-'' \<and>
                 drop 19 s = ''Z'' \<and> is_legacy_stamp (legacy_of_modern s)
              then Some (legacy_of_modern s) else None),
       datetimeToString = modern_of_legacy,
       fromString =
         (\<lambda>s format. if format = legacy_format \<and> is_legacy_stamp s then Some s else None),
       toString = (\<lambda>t format. t),
       setTimeSpecUTC = (\<lambda>t. t),
       toUTC = (\<lambda>t. t),
       saveNode = node_bytes,
       errorFromDom = (\<lambda>n. None),
       errorToXml = (\<lambda>e. []) \<rparr>"

subsection \<open>Sample stanzas and messages\<close>

definition sample_plain :: node where
  "sample_plain =
     Element ''message'' ''jabber:client'' [(''id'', ''m1''), (''type'', ''chat'')]
       [Element ''body'' ''jabber:client'' [] [Text ''hello'']]"

definition sample_typing :: "(string, unit) QXmppMessage" where
  "sample_typing =
     setStamp (Some ''20090110T08:21:05'')
       (setState Composing (QXmppMessage_new [] [] [] []))
     \<lparr>m_stampType := LegacyDelayedDelivery\<rparr>"

definition sample_both_delays :: node where
  "sample_both_delays =
     Element ''message'' ''jabber:client'' [(''type'', ''chat'')]
       [Element ''delay'' ns_delayed_delivery
          [(''xmlns'', ns_delayed_delivery), (''stamp'', ''2010-06-29T08:23:06Z'')] [],
        Element ''x'' ns_legacy_delayed_delivery
          [(''xmlns'', ns_legacy_delayed_delivery), (''stamp'', ''20090110T08:21:05'')] []]"

definition sample_last_legacy_bad :: node where
  "sample_last_legacy_bad =
     Element ''message'' ''jabber:client'' [(''type'', ''chat'')]
       [Element ''delay'' ns_delayed_delivery
          [(''xmlns'', ns_delayed_delivery), (''stamp'', ''2010-06-29T08:23:06Z'')] [],
        Element ''x'' ns_legacy_delayed_delivery
          [(''xmlns'', ns_legacy_delayed_delivery), (''stamp'', ''20090110T08:21:05'')] [],
        Element ''x'' ns_legacy_delayed_delivery
          [(''xmlns'', ns_legacy_delayed_delivery), (''stamp'', ''bad'')] []]"

definition sample_bad_modern :: node where
  "sample_bad_modern =
     Element ''message'' ''jabber:client'' [(''type'', ''chat'')]
       [Element ''delay'' ns_delayed_delivery
          [(''xmlns'', ns_delayed_delivery), (''stamp'', ''yesterday'')] [],
        Element ''x'' ns_legacy_delayed_delivery
          [(''xmlns'', ns_legacy_delayed_delivery), (''stamp'', ''20090110T08:21:05'')] []]"

definition sample_bad_legacy :: node where
  "sample_bad_legacy =
     Element ''message'' ''jabber:client'' [(''type'', ''chat'')]
       [Element ''delay'' ns_delayed_delivery
          [(''xmlns'', ns_delayed_delivery), (''stamp'', ''2010-06-29T08:23:06Z'')] [],
        Element ''x'' ns_legacy_delayed_delivery
          [(''xmlns'', ns_legacy_delayed_delivery), (''stamp'', ''2009-01-10'')] []]"

definition sample_custom_child :: node where
  "sample_custom_child =
     Element ''message'' ''jabber:client'' [(''type'', ''normal'')]
       [Element ''foo'' ''urn:custom'' [(''xmlns'', ''urn:custom'')] [Text ''data'']]"

definition sample_extensions :: node where
  "sample_extensions =
     Element ''message'' ''jabber:client'' [(''type'', ''chat'')]
       [Element ''x'' ''urn:custom:1'' [(''xmlns'', ''urn:custom:1'')] [Text ''one''],
        Element ''body'' ''jabber:client'' [] [Text ''hello''],
        Element ''x'' ns_legacy_delayed_delivery
          [(''xmlns'', ns_legacy_delayed_delivery), (''stamp'', ''20090110T08:21:05'')] [],
        Element ''x'' ''urn:custom:2'' [(''xmlns'', ''urn:custom:2''), (''k'', ''v'')] []]"

definition sample_receipt :: node where
  "sample_receipt =
     Element ''message'' ''jabber:client'' [(''id'', ''s1'')]
       [Element ''received'' ns_message_receipts
          [(''xmlns'', ns_message_receipts), (''id'', ''abc'')] []]"

definition sample_old_receipt :: node where
  "sample_old_receipt =
     Element ''message'' ''jabber:client'' [(''id'', ''s1'')]
       [Element ''received'' ns_message_receipts [(''xmlns'', ns_message_receipts)] []]"

definition sample_two_received :: node where
  "sample_two_received =
     Element ''message'' ''jabber:client'' [(''id'', ''s1'')]
       [Element ''received'' ''urn:foreign'' [(''xmlns'', ''urn:foreign''), (''id'', ''zzz'')] [],
        Element ''received'' ns_message_receipts
          [(''xmlns'', ns_message_receipts), (''id'', ''abc'')] []]"

definition sample_composing :: node where
  "sample_composing =
     Element ''message'' ''jabber:client'' [(''type'', ''chat'')]
       [Element ''composing'' ns_chat_states [(''xmlns'', ns_chat_states)] []]"

definition sample_two_composing :: node where
  "sample_two_composing =
     Element ''message'' ''jabber:client'' [(''type'', ''chat'')]
       [Element ''composing'' ''urn:foreign'' [(''xmlns'', ''urn:foreign'')] [],
        Element ''composing'' ns_chat_states [(''xmlns'', ns_chat_states)] []]"

definition sample_foreign_state :: node where
  "sample_foreign_state =
     Element ''message'' ''jabber:client'' [(''type'', ''chat'')]
       [Element ''composing'' ''urn:foreign'' [(''xmlns'', ''urn:foreign'')] []]"

definition sample_buzz :: "(string, unit) QXmppMessage" where
  "sample_buzz =
     setReceiptId ''msg1'' (setAttentionRequested True (QXmppMessage_new [] [] [] []))"



section \<open>Properties of the constructor and of the setters\<close>

text \<open>
  C2 (as amended). Every directly constructed message has type \<open>Chat\<close>: the constructor
  initialises \<open>m_type\<close> with \<open>Chat\<close>, whatever its four arguments are.
\<close>

theorem constructor_type_is_Chat:
  "m_type (QXmppMessage_new from to body thread) = Chat"
  by (simp add: QXmppMessage_new_def)

text \<open>
  C2 (as stated) fails: the type of the message constructed with the default arguments is
  not \<open>Normal\<close>.
\<close>

theorem constructor_type_not_Normal:
  "m_type (QXmppMessage_new [] [] [] [] :: (string, unit) QXmppMessage) \<noteq> Normal"
  by (simp add: QXmppMessage_new_def)

text \<open>
  C9. Requesting a receipt on a message whose id is empty assigns the next generated id,
  which is not empty; requesting it on a message that has an id leaves the id as it is;
  withdrawing the request never changes the id.
\<close>

theorem setReceiptRequested_id:
  "(m_id m = [] \<longrightarrow>
      m_id (snd (setReceiptRequested True (n, m))) = ''qxmpp'' @ decimal (Suc n) \<and>
      m_id (snd (setReceiptRequested True (n, m))) \<noteq> []) \<and>
   (m_id m \<noteq> [] \<longrightarrow> m_id (snd (setReceiptRequested True (n, m))) = m_id m) \<and>
   m_id (snd (setReceiptRequested False (n, m))) = m_id m"
  by (simp add: setReceiptRequested_def generateAndSetNextId_def Let_def)

theorem setReceiptRequested_id_witness:
  "m_id (QXmppMessage_new [] [] ''hi'' [] :: (string, unit) QXmppMessage) = [] \<and>
   m_id (snd (setReceiptRequested True
      (7, QXmppMessage_new [] [] ''hi'' [] :: (string, unit) QXmppMessage))) = ''qxmpp8'' \<and>
   m_id (QXmppMessage_new [] [] ''hi'' []\<lparr>m_id := ''abc''\<rparr> :: (string, unit) QXmppMessage) \<noteq> [] \<and>
   m_id (snd (setReceiptRequested True
      (7, QXmppMessage_new [] [] ''hi'' []\<lparr>m_id := ''abc''\<rparr> :: (string, unit) QXmppMessage))) =
     ''abc''"
  using
    setReceiptRequested_id
      [of "QXmppMessage_new [] [] ''hi'' [] :: (string, unit) QXmppMessage" 7]
    setReceiptRequested_id
      [of "QXmppMessage_new [] [] ''hi'' []\<lparr>m_id := ''abc''\<rparr> :: (string, unit) QXmppMessage" 7]
  by (simp add: QXmppMessage_new_def decimal.simps digit_def)

section \<open>What the decoder stores\<close>

lemma find_Some_set: "find P xs = Some x \<Longrightarrow> P x \<and> x \<in> set xs"
  by (induction xs) (auto split: if_splits)

lemma scan_x_fst:
  "fst (scan_x L ks (m, exts)) =
     (case filter (\<lambda>c. isElementNamed ''x'' c \<and>
                       namespaceURI (Some c) = ns_legacy_delayed_delivery) ks of
        [] \<Rightarrow> m
      | l # ls \<Rightarrow> m\<lparr> m_stamp := legacy_stamp L (last (l # ls)),
                      m_stampType := LegacyDelayedDelivery \<rparr>)"
proof (induction ks arbitrary: m exts)
  case Nil
  show ?case by simp
next
  case (Cons k ks)
  show ?case
    by (simp add: Cons.IH split: list.splits)
qed

lemma scan_x_snd:
  "snd (scan_x L ks (m, exts)) =
     exts @ map QXmppElement
       (filter (\<lambda>c. isElementNamed ''x'' c \<and>
                     namespaceURI (Some c) \<noteq> ns_legacy_delayed_delivery) ks)"
  by (induction ks arbitrary: m exts) simp_all

lemma parse_x_eq:
  "parse_x L e m =
     m\<lparr> m_stamp := (case legacy_x_children e of
                      [] \<Rightarrow> m_stamp m | l # ls \<Rightarrow> legacy_stamp L (last (l # ls))),
        m_stampType := (case legacy_x_children e of
                      [] \<Rightarrow> m_stampType m | l # ls \<Rightarrow> LegacyDelayedDelivery),
        m_extensions := map QXmppElement (opaque_x_children e) \<rparr>"
proof -
  have "parse_x L e m =
     (fst (scan_x L (children e) (m, []))) \<lparr>m_extensions := snd (scan_x L (children e) (m, []))\<rparr>"
    by (simp add: parse_x_def split: prod.splits)
  then show ?thesis
    by (simp add: scan_x_fst scan_x_snd legacy_x_children_def opaque_x_children_def
        split: list.splits)
qed

lemma parse_delay_eq:
  "parse_delay L e m =
     m\<lparr> m_stamp := (if modern_delay_found e
                     then datetimeFromString L (attribute (firstChildElement e ''delay'') ''stamp'')
                     else m_stamp m),
        m_stampType := (if modern_delay_found e then DelayedDelivery else m_stampType m) \<rparr>"
  by (simp add: parse_delay_def modern_delay_found_def Let_def)

lemma parse_receipts_eq:
  "parse_receipts e m =
     m\<lparr> m_receiptId :=
          (if received_found e
           then (if attribute (firstChildElement e ''received'') ''id'' = [] then m_id m
                 else attribute (firstChildElement e ''received'') ''id'')
           else []),
        m_receiptRequested :=
          (namespaceURI (firstChildElement e ''request'') = ns_message_receipts) \<rparr>"
  by (simp add: parse_receipts_def received_found_def Let_def)

lemma parse_chat_state_eq:
  "parse_chat_state e m =
     m\<lparr> m_state := (case find (state_matches e) known_states of
                      Some i \<Rightarrow> i | None \<Rightarrow> m_state m) \<rparr>"
  unfolding parse_chat_state_def
  by (cases "find (state_matches e) known_states") simp_all

lemma parse_type_eq:
  "parse_type e m =
     m\<lparr> m_type := (case find (\<lambda>i. attribute (Some e) ''type'' = message_types i) known_types of
                      Some i \<Rightarrow> i | None \<Rightarrow> Normal) \<rparr>"
  unfolding parse_type_def Let_def
  by (cases "find (\<lambda>i. attribute (Some e) ''type'' = message_types i) known_types") simp_all

lemma parse_xhtml_eq:
  "parse_xhtml L e m = m\<lparr> m_xhtml := xhtml_after L e (m_xhtml m) \<rparr>"
  by (simp add: parse_xhtml_def xhtml_after_def Let_def split: option.splits)

lemma parse_eq:
  "parse L e m =
     m\<lparr> m_from := attribute (Some e) ''from'',
        m_to := attribute (Some e) ''to'',
        m_id := attribute (Some e) ''id'',
        m_lang := attribute (Some e) ''xml:lang'',
        m_error := errorFromDom L e,
        m_type := (case find (\<lambda>i. attribute (Some e) ''type'' = message_types i) known_types of
                      Some i \<Rightarrow> i | None \<Rightarrow> Normal),
        m_body := elementText (firstChildElement e ''body''),
        m_subject := elementText (firstChildElement e ''subject''),
        m_thread := elementText (firstChildElement e ''thread''),
        m_state := (case find (state_matches e) known_states of
                      Some i \<Rightarrow> i | None \<Rightarrow> m_state m),
        m_xhtml := xhtml_after L e (m_xhtml m),
        m_receiptId :=
          (if received_found e
           then (if attribute (firstChildElement e ''received'') ''id'' = []
                 then attribute (Some e) ''id''
                 else attribute (firstChildElement e ''received'') ''id'')
           else []),
        m_receiptRequested :=
          (namespaceURI (firstChildElement e ''request'') = ns_message_receipts),
        m_attentionRequested :=
          (namespaceURI (firstChildElement e ''attention'') = ns_attention),
        m_stamp := (case legacy_x_children e of
                      [] \<Rightarrow> if modern_delay_found e
                            then datetimeFromString L
                                   (attribute (firstChildElement e ''delay'') ''stamp'')
                            else m_stamp m
                    | l # ls \<Rightarrow> legacy_stamp L (last (l # ls))),
        m_stampType := (case legacy_x_children e of
                      [] \<Rightarrow> if modern_delay_found e then DelayedDelivery else m_stampType m
                    | l # ls \<Rightarrow> LegacyDelayedDelivery),
        m_extensions := map QXmppElement (opaque_x_children e) \<rparr>"
proof -
  define m1 where "m1 = QXmppStanza_parse L e m"
  define m2 where "m2 = parse_type e m1"
  define m3 where "m3 = parse_texts e m2"
  define m4 where "m4 = parse_chat_state e m3"
  define m5 where "m5 = parse_xhtml L e m4"
  define m6 where "m6 = parse_receipts e m5"
  define m7 where "m7 = parse_delay L e m6"
  define m8 where "m8 = parse_attention e m7"
  have p: "parse L e m = parse_x L e m8"
    by (simp add: parse_def m1_def m2_def m3_def m4_def m5_def m6_def m7_def m8_def)
  have e1: "m1 = m\<lparr> m_from := attribute (Some e) ''from'', m_to := attribute (Some e) ''to'',
        m_id := attribute (Some e) ''id'', m_lang := attribute (Some e) ''xml:lang'',
        m_error := errorFromDom L e \<rparr>"
    by (simp add: m1_def QXmppStanza_parse_def)
  have e2: "m2 = m1\<lparr> m_type := (case find (\<lambda>i. attribute (Some e) ''type'' = message_types i) known_types of
                      Some i \<Rightarrow> i | None \<Rightarrow> Normal) \<rparr>"
    unfolding m2_def by (rule parse_type_eq)
  have e3: "m3 = m2\<lparr> m_body := elementText (firstChildElement e ''body''),
        m_subject := elementText (firstChildElement e ''subject''),
        m_thread := elementText (firstChildElement e ''thread'') \<rparr>"
    by (simp add: m3_def parse_texts_def)
  have e4: "m4 = m3\<lparr> m_state :=
        (case find (state_matches e) known_states of
           Some i \<Rightarrow> i | None \<Rightarrow> m_state m) \<rparr>"
    unfolding m4_def parse_chat_state_eq
    by (cases "find (state_matches e) known_states") (simp_all add: e3 e2 e1)
  have e5: "m5 = m4\<lparr> m_xhtml := xhtml_after L e (m_xhtml m) \<rparr>"
    unfolding m5_def parse_xhtml_eq by (simp add: e4 e3 e2 e1)
  have e6: "m6 = m5\<lparr> m_receiptId :=
          (if received_found e
           then (if attribute (firstChildElement e ''received'') ''id'' = []
                 then attribute (Some e) ''id''
                 else attribute (firstChildElement e ''received'') ''id'')
           else []),
        m_receiptRequested :=
          (namespaceURI (firstChildElement e ''request'') = ns_message_receipts) \<rparr>"
    unfolding m6_def parse_receipts_eq by (simp add: e5 e4 e3 e2 e1)
  have e7: "m7 = m6\<lparr> m_stamp := (if modern_delay_found e
                     then datetimeFromString L (attribute (firstChildElement e ''delay'') ''stamp'')
                     else m_stamp m),
        m_stampType := (if modern_delay_found e then DelayedDelivery else m_stampType m) \<rparr>"
    unfolding m7_def parse_delay_eq by (simp add: e6 e5 e4 e3 e2 e1)
  have e8: "m8 = m7\<lparr> m_attentionRequested :=
          (namespaceURI (firstChildElement e ''attention'') = ns_attention) \<rparr>"
    by (simp add: m8_def parse_attention_def)
  have s8: "m_stamp m8 = (if modern_delay_found e
                     then datetimeFromString L (attribute (firstChildElement e ''delay'') ''stamp'')
                     else m_stamp m)"
    by (simp add: e8 e7)
  have t8: "m_stampType m8 = (if modern_delay_found e then DelayedDelivery else m_stampType m)"
    by (simp add: e8 e7)
  show ?thesis
    unfolding p parse_x_eq s8 t8
    by (cases "legacy_x_children e") (simp_all add: e8 e7 e6 e5 e4 e3 e2 e1)
qed

lemmas ns_defs = ns_chat_states_def ns_xhtml_im_def ns_message_receipts_def
  ns_delayed_delivery_def ns_legacy_delayed_delivery_def ns_attention_def ns_xhtml_def

lemmas parse_defs = decode_def parse_def parse_x_def parse_attention_def parse_delay_def
  parse_receipts_def parse_xhtml_def parse_chat_state_def parse_texts_def parse_type_def
  QXmppStanza_parse_def QXmppMessage_new_def firstChildElement_def elementText_def
  state_matches_def known_states_def known_types_def legacy_stamp_def legacy_format_def
  sample_lib_def is_legacy_stamp_def isDigit_def legacy_of_modern_def modern_of_legacy_def
  Let_def

lemmas toXml_defs = toXml_def toXml_attributes_def toXml_texts_def
  toXml_error_def toXml_chat_state_def toXml_xhtml_def toXml_stamp_def toXml_received_def
  toXml_request_def toXml_attention_def toXml_extensions_def helperToXmlAddAttribute_def
  helperToXmlAddTextElement_def

lemma firstChildElement_hasChild:
  "firstChildElement e n \<noteq> None \<Longrightarrow> namespaceURI (firstChildElement e n) = ns \<Longrightarrow>
   hasChild e n ns"
  by (auto simp: firstChildElement_def hasChild_def list_ex_iff dest: find_Some_set)

lemma state_matches_hasChild:
  "state_matches e i \<Longrightarrow> hasChild e (chat_states i) ns_chat_states"
  by (simp add: state_matches_def Let_def firstChildElement_hasChild)

lemma no_state_child_no_match:
  assumes "\<not> list_ex (\<lambda>i. hasChild e (chat_states i) ns_chat_states) known_states"
  shows "find (state_matches e) known_states = None"
proof -
  have "\<not> state_matches e i" if "i \<in> set known_states" for i
    using assms that state_matches_hasChild [of e i] by (auto simp: list_ex_iff)
  then show ?thesis
    by (simp add: find_None_iff)
qed

lemma no_legacy_child: 
  "\<not> hasChild e ''x'' ns_legacy_delayed_delivery \<Longrightarrow> legacy_x_children e = []"
  by (auto simp: legacy_x_children_def hasChild_def list_ex_iff filter_empty_conv)

section \<open>Fields the decoder does not reset\<close>

text \<open>
  C10. \<open>parse\<close> does not reset the chat state or the time stamp. When the element has no
  child named after a chat state in the chat-states namespace, the chat state of the message
  is the one it had before the call; when the element has neither a \<open>delay\<close> child in the
  modern delayed-delivery namespace nor an \<open>x\<close> child in the legacy one, the time stamp
  and its kind are the ones the message had before the call.
\<close>

theorem parse_keeps_state_and_stamp:
  "(\<not> list_ex (\<lambda>i. hasChild e (chat_states i) ns_chat_states) known_states \<longrightarrow>
      m_state (parse L e m) = m_state m) \<and>
   (\<not> hasChild e ''delay'' ns_delayed_delivery \<and>
    \<not> hasChild e ''x'' ns_legacy_delayed_delivery \<longrightarrow>
      m_stamp (parse L e m) = m_stamp m \<and> m_stampType (parse L e m) = m_stampType m)"
proof (intro conjI impI)
  assume "\<not> list_ex (\<lambda>i. hasChild e (chat_states i) ns_chat_states) known_states"
  then show "m_state (parse L e m) = m_state m"
    by (simp add: parse_eq no_state_child_no_match)
next
  assume b: "\<not> hasChild e ''delay'' ns_delayed_delivery \<and>
    \<not> hasChild e ''x'' ns_legacy_delayed_delivery"
  have l: "legacy_x_children e = []"
    using b by (simp add: no_legacy_child)
  have d: "\<not> modern_delay_found e"
    using b firstChildElement_hasChild [of e "''delay''" ns_delayed_delivery]
    by (auto simp: modern_delay_found_def)
  show "m_stamp (parse L e m) = m_stamp m"
    by (simp add: parse_eq l d)
  show "m_stampType (parse L e m) = m_stampType m"
    by (simp add: parse_eq l d)
qed

theorem parse_keeps_state_and_stamp_witness:
  "\<not> list_ex (\<lambda>i. hasChild sample_plain (chat_states i) ns_chat_states) known_states \<and>
   \<not> hasChild sample_plain ''delay'' ns_delayed_delivery \<and>
   \<not> hasChild sample_plain ''x'' ns_legacy_delayed_delivery \<and>
   m_state (parse sample_lib sample_plain sample_typing) = Composing \<and>
   m_stamp (parse sample_lib sample_plain sample_typing) = Some ''20090110T08:21:05'' \<and>
   m_stampType (parse sample_lib sample_plain sample_typing) = LegacyDelayedDelivery"
proof -
  have h1: "\<not> list_ex (\<lambda>i. hasChild sample_plain (chat_states i) ns_chat_states) known_states"
    by (simp add: sample_plain_def hasChild_def known_states_def)
  have h2: "\<not> hasChild sample_plain ''delay'' ns_delayed_delivery \<and>
    \<not> hasChild sample_plain ''x'' ns_legacy_delayed_delivery"
    by (simp add: sample_plain_def hasChild_def)
  show ?thesis
    using h1 h2 parse_keeps_state_and_stamp [of sample_plain sample_lib sample_typing]
    by (simp add: sample_typing_def setStamp_def setState_def QXmppMessage_new_def)
qed

section \<open>Delayed delivery\<close>

text \<open>
  C3 (as amended). When the element has an \<open>x\<close> child in the legacy delayed-delivery
  namespace, the decoded kind is \<open>LegacyDelayedDelivery\<close> and the time stamp is the one
  read, in the legacy format, from the last such child of the element: it is absent when the
  stamp of that last child cannot be parsed. This holds whether or not a modern \<open>delay\<close>
  child is present too: the scan of the \<open>x\<close> children runs after the \<open>delay\<close> check
  and every legacy \<open>x\<close> child overwrites what was read before it.
\<close>

theorem legacy_delay_overrides:
  assumes "hasChild e ''x'' ns_legacy_delayed_delivery"
  shows "m_stampType (parse L e m) = LegacyDelayedDelivery \<and>
         m_stamp (parse L e m) = legacy_stamp L (last (legacy_x_children e)) \<and>
         last (legacy_x_children e) \<in> set (children e) \<and>
         is_legacy_delay (last (legacy_x_children e))"
proof -
  have ne: "legacy_x_children e \<noteq> []"
    using assms by (auto simp: legacy_x_children_def hasChild_def list_ex_iff filter_empty_conv)
  then obtain l ls where c: "legacy_x_children e = l # ls"
    by (cases "legacy_x_children e") auto
  have "last (legacy_x_children e) \<in> set (legacy_x_children e)"
    using ne by simp
  then have "last (legacy_x_children e) \<in> set (children e) \<and>
         is_legacy_delay (last (legacy_x_children e))"
    unfolding legacy_x_children_def is_legacy_delay_def by auto
  then show ?thesis
    by (simp add: parse_eq c)
qed

theorem legacy_delay_overrides_witness:
  "hasChild sample_both_delays ''delay'' ns_delayed_delivery \<and>
   hasChild sample_both_delays ''x'' ns_legacy_delayed_delivery \<and>
   m_stampType (decode sample_lib sample_both_delays) = LegacyDelayedDelivery \<and>
   m_stamp (decode sample_lib sample_both_delays) = Some ''20090110T08:21:05''"
proof -
  have h: "hasChild sample_both_delays ''x'' ns_legacy_delayed_delivery"
    by (simp add: sample_both_delays_def hasChild_def ns_defs)
  have d: "hasChild sample_both_delays ''delay'' ns_delayed_delivery"
    by (simp add: sample_both_delays_def hasChild_def ns_defs)
  have l: "legacy_stamp sample_lib (last (legacy_x_children sample_both_delays)) =
      Some ''20090110T08:21:05''"
    by (simp add: sample_both_delays_def legacy_x_children_def ns_defs legacy_stamp_def
        sample_lib_def is_legacy_stamp_def isDigit_def legacy_format_def)
  show ?thesis
    using h d l legacy_delay_overrides [OF h, of sample_lib "QXmppMessage_new [] [] [] []"]
    by (simp add: decode_def)
qed

text \<open>
  C3 (as stated) fails: the element has a modern \<open>delay\<close> child with a parseable stamp
  and a legacy \<open>x\<close> child with a parseable stamp, followed by a second legacy \<open>x\<close> child
  whose stamp cannot be parsed; the decoded kind is legacy but the time stamp is absent, it
  is not the one of the parseable legacy child.
\<close>

theorem later_legacy_child_overwrites:
  "hasChild sample_last_legacy_bad ''delay'' ns_delayed_delivery \<and>
   datetimeFromString sample_lib ''2010-06-29T08:23:06Z'' = Some ''20100629T08:23:06'' \<and>
   Element ''x'' ns_legacy_delayed_delivery
     [(''xmlns'', ns_legacy_delayed_delivery), (''stamp'', ''20090110T08:21:05'')] []
     \<in> set (children sample_last_legacy_bad) \<and>
   fromString sample_lib ''20090110T08:21:05'' legacy_format = Some ''20090110T08:21:05'' \<and>
   m_stampType (decode sample_lib sample_last_legacy_bad) = LegacyDelayedDelivery \<and>
   m_stamp (decode sample_lib sample_last_legacy_bad) = None \<and>
   m_stamp (decode sample_lib sample_last_legacy_bad) \<noteq> Some ''20090110T08:21:05''"
  by (simp add: parse_defs ns_defs sample_last_legacy_bad_def hasChild_def)

section \<open>Unparseable stamps\<close>

lemma parse_m_stamp:
  "m_stamp (parse L e m) = (case deciding_stamp L e of None \<Rightarrow> m_stamp m | Some st \<Rightarrow> st)"
  by (cases "legacy_x_children e") (simp_all add: parse_eq deciding_stamp_def)

lemma toXml_stamp_absent: "m_stamp m = None \<Longrightarrow> toXml_stamp L m = []"
  by (simp add: toXml_stamp_def)

text \<open>
  C4 (as amended). The decoded time stamp is the stamp of the deciding delay child (the last
  legacy \<open>x\<close> child when there is one, otherwise the first child named \<open>delay\<close> when it
  is in the modern namespace) as the parser of its kind reads it, and the time stamp the
  message had before when the element has no deciding delay child. Hence, when the stamp of
  the deciding delay child cannot be parsed, \<open>parse\<close> leaves the time stamp absent, whatever
  the message held before and whatever the other delay children of the element carry: there
  is no fallback. The encoder writes no \<open>delay\<close> and no legacy \<open>x\<close> element for a
  message whose time stamp is absent: the time-stamp section of its output is empty and the
  output consists of the other sections alone.
\<close>

theorem unparseable_deciding_stamp_absent:
  "m_stamp (parse L e m) = (case deciding_stamp L e of None \<Rightarrow> m_stamp m | Some st \<Rightarrow> st) \<and>
   (deciding_stamp L e = Some None \<longrightarrow>
      m_stamp (parse L e m) = None \<and> toXml_stamp L (parse L e m) = []) \<and>
   (m_stamp m' = None \<longrightarrow>
      toXml_stamp L m' = [] \<and>
      toXml L m' =
        [StartElement ''message''] @ toXml_attributes m' @ toXml_texts m' @ toXml_error L m' @
        toXml_chat_state m' @ toXml_xhtml m' @ toXml_received m' @ toXml_request m' @
        toXml_attention m' @ toXml_extensions m' @ [EndElement])"
proof (intro conjI impI)
  show "m_stamp (parse L e m) =
      (case deciding_stamp L e of None \<Rightarrow> m_stamp m | Some st \<Rightarrow> st)"
    by (rule parse_m_stamp)
next
  assume "deciding_stamp L e = Some None"
  then show s: "m_stamp (parse L e m) = None"
    by (simp add: parse_m_stamp)
  show "toXml_stamp L (parse L e m) = []"
    using s by (rule toXml_stamp_absent)
next
  assume "m_stamp m' = None"
  then show "toXml_stamp L m' = []"
    by (rule toXml_stamp_absent)
next
  assume "m_stamp m' = None"
  then show "toXml L m' =
        [StartElement ''message''] @ toXml_attributes m' @ toXml_texts m' @ toXml_error L m' @
        toXml_chat_state m' @ toXml_xhtml m' @ toXml_received m' @ toXml_request m' @
        toXml_attention m' @ toXml_extensions m' @ [EndElement]"
    by (simp add: toXml_def toXml_stamp_absent)
qed

theorem unparseable_deciding_stamp_absent_witness:
  "datetimeFromString sample_lib ''2010-06-29T08:23:06Z'' = Some ''20100629T08:23:06'' \<and>
   m_stamp sample_typing = Some ''20090110T08:21:05'' \<and>
   deciding_stamp sample_lib sample_bad_legacy = Some None \<and>
   m_stamp (parse sample_lib sample_bad_legacy sample_typing) = None \<and>
   toXml_stamp sample_lib (parse sample_lib sample_bad_legacy sample_typing) = [] \<and>
   m_stamp (decode sample_lib sample_bad_legacy) = None \<and>
   toXml sample_lib (decode sample_lib sample_bad_legacy) =
     [StartElement ''message'', Attribute ''type'' ''chat'', EndElement]"
proof -
  have h: "deciding_stamp sample_lib sample_bad_legacy = Some None"
    by (simp add: deciding_stamp_def legacy_x_children_def sample_bad_legacy_def legacy_stamp_def
        sample_lib_def is_legacy_stamp_def legacy_format_def ns_defs)
  have p: "datetimeFromString sample_lib ''2010-06-29T08:23:06Z'' = Some ''20100629T08:23:06'' \<and>
      m_stamp sample_typing = Some ''20090110T08:21:05''"
    by (simp add: sample_lib_def is_legacy_stamp_def isDigit_def legacy_of_modern_def
        sample_typing_def setStamp_def)
  have d: "decode sample_lib sample_bad_legacy =
    \<lparr>m_to = [], m_from = [], m_id = [], m_lang = [], m_error = None, m_extensions = [],
     m_type = Chat, m_stamp = None, m_stampType = LegacyDelayedDelivery, m_state = None_State,
     m_attentionRequested = False, m_body = [], m_subject = [], m_thread = [], m_xhtml = [],
     m_receiptId = [], m_receiptRequested = False\<rparr>"
    by (simp add: parse_defs ns_defs sample_bad_legacy_def)
  have x: "toXml sample_lib (decode sample_lib sample_bad_legacy) =
     [StartElement ''message'', Attribute ''type'' ''chat'', EndElement]"
    unfolding d by (simp add: toXml_defs)
  show ?thesis
    using h p x
      unparseable_deciding_stamp_absent [of sample_lib sample_bad_legacy sample_typing]
      unparseable_deciding_stamp_absent [of sample_lib sample_bad_legacy
        "QXmppMessage_new [] [] [] []"]
    by (simp add: decode_def)
qed

text \<open>
  C4 (as stated) fails: the stamp of the modern \<open>delay\<close> child of the element cannot be
  parsed, and decoding leaves a time stamp present, the one of the legacy \<open>x\<close> child, which
  the encoder writes back.
\<close>

theorem unparseable_modern_stamp_overridden:
  "Element ''delay'' ns_delayed_delivery
     [(''xmlns'', ns_delayed_delivery), (''stamp'', ''yesterday'')] []
     \<in> set (children sample_bad_modern) \<and>
   datetimeFromString sample_lib ''yesterday'' = None \<and>
   m_stamp (decode sample_lib sample_bad_modern) = Some ''20090110T08:21:05'' \<and>
   m_stamp (decode sample_lib sample_bad_modern) \<noteq> None \<and>
   toXml_stamp sample_lib (decode sample_lib sample_bad_modern) =
     [StartElement ''x'', Attribute ''xmlns'' ns_legacy_delayed_delivery,
      Attribute ''stamp'' ''20090110T08:21:05'', EndElement]"
proof -
  have d: "decode sample_lib sample_bad_modern =
    \<lparr>m_to = [], m_from = [], m_id = [], m_lang = [], m_error = None, m_extensions = [],
     m_type = Chat, m_stamp = Some ''20090110T08:21:05'',
     m_stampType = LegacyDelayedDelivery, m_state = None_State,
     m_attentionRequested = False, m_body = [], m_subject = [], m_thread = [], m_xhtml = [],
     m_receiptId = [], m_receiptRequested = False\<rparr>"
    by (simp add: parse_defs ns_defs sample_bad_modern_def)
  show ?thesis
    unfolding d
    by (simp add: toXml_defs sample_bad_modern_def sample_lib_def is_legacy_stamp_def
        legacy_format_def)
qed

section \<open>Opaque extensions\<close>

text \<open>
  C5 (as amended). The children named \<open>x\<close> outside the legacy delayed-delivery namespace,
  and no others, are stored as opaque extensions on decode, in document order. The encoder
  writes the stored extensions verbatim, in that order, as the last children of the
  \<open>message\<close> element.
\<close>

theorem x_extensions_pass_through:
  "m_extensions (parse L e m) = map QXmppElement (opaque_x_children e) \<and>
   toXml_extensions (parse L e m) = concat (map nodeToXml (opaque_x_children e)) \<and>
   (\<exists>pre. toXml L (parse L e m) =
      pre @ concat (map nodeToXml (opaque_x_children e)) @ [EndElement])"
proof -
  have 1: "m_extensions (parse L e m) = map QXmppElement (opaque_x_children e)"
    by (simp add: parse_eq)
  have 2: "toXml_extensions (parse L e m) = concat (map nodeToXml (opaque_x_children e))"
    by (simp add: toXml_extensions_def 1 comp_def)
  have "toXml L (parse L e m) =
      ([StartElement ''message''] @ toXml_attributes (parse L e m) @ toXml_texts (parse L e m) @
       toXml_error L (parse L e m) @ toXml_chat_state (parse L e m) @
       toXml_xhtml (parse L e m) @ toXml_stamp L (parse L e m) @
       toXml_received (parse L e m) @ toXml_request (parse L e m) @
       toXml_attention (parse L e m)) @
      concat (map nodeToXml (opaque_x_children e)) @ [EndElement]"
    unfolding toXml_def 2 by simp
  then show ?thesis
    using 1 2 by blast
qed

theorem x_extensions_pass_through_witness:
  "opaque_x_children sample_extensions =
     [Element ''x'' ''urn:custom:1'' [(''xmlns'', ''urn:custom:1'')] [Text ''one''],
      Element ''x'' ''urn:custom:2'' [(''xmlns'', ''urn:custom:2''), (''k'', ''v'')] []] \<and>
   m_extensions (decode sample_lib sample_extensions) =
     [QXmppElement (Element ''x'' ''urn:custom:1'' [(''xmlns'', ''urn:custom:1'')] [Text ''one'']),
      QXmppElement (Element ''x'' ''urn:custom:2'' [(''xmlns'', ''urn:custom:2''), (''k'', ''v'')] [])] \<and>
   toXml_extensions (decode sample_lib sample_extensions) =
     [StartElement ''x'', Attribute ''xmlns'' ''urn:custom:1'', Characters ''one'', EndElement,
      StartElement ''x'', Attribute ''xmlns'' ''urn:custom:2'', Attribute ''k'' ''v'', EndElement]"
proof -
  have o: "opaque_x_children sample_extensions =
     [Element ''x'' ''urn:custom:1'' [(''xmlns'', ''urn:custom:1'')] [Text ''one''],
      Element ''x'' ''urn:custom:2'' [(''xmlns'', ''urn:custom:2''), (''k'', ''v'')] []]"
    by (simp add: opaque_x_children_def sample_extensions_def ns_defs)
  show ?thesis
    using x_extensions_pass_through [of sample_lib sample_extensions "QXmppMessage_new [] [] [] []"]
    unfolding o by (simp add: decode_def)
qed

text \<open>
  C5 (as stated) fails: a child that the codec does not interpret and that is not named
  \<open>x\<close> is not stored as an extension, and it is missing from the encoder's output.
\<close>

theorem custom_child_not_stored:
  "children sample_custom_child =
     [Element ''foo'' ''urn:custom'' [(''xmlns'', ''urn:custom'')] [Text ''data'']] \<and>
   m_extensions (decode sample_lib sample_custom_child) = [] \<and>
   toXml sample_lib (decode sample_lib sample_custom_child) =
     [StartElement ''message'', Attribute ''type'' ''normal'', EndElement]"
proof -
  have d: "decode sample_lib sample_custom_child =
    \<lparr>m_to = [], m_from = [], m_id = [], m_lang = [], m_error = None, m_extensions = [],
     m_type = Normal, m_stamp = None, m_stampType = DelayedDelivery, m_state = None_State,
     m_attentionRequested = False, m_body = [], m_subject = [], m_thread = [], m_xhtml = [],
     m_receiptId = [], m_receiptRequested = False\<rparr>"
    by (simp add: parse_defs ns_defs sample_custom_child_def)
  show ?thesis
    unfolding d by (simp add: toXml_defs sample_custom_child_def)
qed

section \<open>Delivery receipts\<close>

text \<open>
  C6 (as amended). The decoder looks at the first child named \<open>received\<close>. When that
  child is in the message-receipts namespace and its \<open>id\<close> attribute is not empty, the
  decoded receipt id is that attribute; when it is in the namespace and the attribute is empty
  or missing, the receipt id is the stanza's own id; when there is no child named
  \<open>received\<close> or the first one is in another namespace, the receipt id is cleared.
\<close>

theorem receipt_id_decoded:
  "(received_found e \<and> attribute (firstChildElement e ''received'') ''id'' \<noteq> [] \<longrightarrow>
      m_receiptId (parse L e m) = attribute (firstChildElement e ''received'') ''id'') \<and>
   (received_found e \<and> attribute (firstChildElement e ''received'') ''id'' = [] \<longrightarrow>
      m_receiptId (parse L e m) = m_id (parse L e m)) \<and>
   (\<not> received_found e \<longrightarrow> m_receiptId (parse L e m) = [])"
  by (simp add: parse_eq)

theorem receipt_id_decoded_witness:
  "received_found sample_receipt \<and>
   attribute (firstChildElement sample_receipt ''received'') ''id'' = ''abc'' \<and>
   m_receiptId (decode sample_lib sample_receipt) = ''abc'' \<and>
   received_found sample_old_receipt \<and>
   attribute (firstChildElement sample_old_receipt ''received'') ''id'' = [] \<and>
   m_receiptId (decode sample_lib sample_old_receipt) = ''s1'' \<and>
   \<not> received_found sample_plain \<and>
   m_receiptId (parse sample_lib sample_plain (setReceiptId ''old'' sample_typing)) = []"
proof -
  have a: "received_found sample_receipt \<and>
      attribute (firstChildElement sample_receipt ''received'') ''id'' = ''abc''"
    by (simp add: received_found_def sample_receipt_def firstChildElement_def ns_defs)
  have b: "received_found sample_old_receipt \<and>
      attribute (firstChildElement sample_old_receipt ''received'') ''id'' = []"
    by (simp add: received_found_def sample_old_receipt_def firstChildElement_def ns_defs)
  have c: "\<not> received_found sample_plain"
    by (simp add: received_found_def sample_plain_def firstChildElement_def)
  have i: "m_id (decode sample_lib sample_old_receipt) = ''s1''"
    by (simp add: decode_def parse_eq sample_old_receipt_def)
  show ?thesis
    using a b c i
      receipt_id_decoded [of sample_receipt sample_lib "QXmppMessage_new [] [] [] []"]
      receipt_id_decoded [of sample_old_receipt sample_lib "QXmppMessage_new [] [] [] []"]
      receipt_id_decoded [of sample_plain sample_lib "setReceiptId ''old'' sample_typing"]
    by (simp add: decode_def)
qed

text \<open>
  C6 (as stated) fails: the element has a \<open>received\<close> child in the message-receipts
  namespace with the id \<open>abc\<close>, after a \<open>received\<close> child of another namespace; the
  decoded receipt id is empty, neither \<open>abc\<close> nor the stanza's id \<open>s1\<close>.
\<close>

theorem second_received_child_ignored:
  "Element ''received'' ns_message_receipts [(''xmlns'', ns_message_receipts), (''id'', ''abc'')] []
     \<in> set (children sample_two_received) \<and>
   hasChild sample_two_received ''received'' ns_message_receipts \<and>
   m_id (decode sample_lib sample_two_received) = ''s1'' \<and>
   m_receiptId (decode sample_lib sample_two_received) = [] \<and>
   m_receiptId (decode sample_lib sample_two_received) \<noteq> ''abc''"
  by (simp add: parse_defs ns_defs sample_two_received_def hasChild_def)

section \<open>Chat states\<close>

text \<open>
  C7 (as amended). When the first child named \<open>composing\<close> is in the chat-states
  namespace and the states tried before it (\<open>active\<close>, \<open>inactive\<close>, \<open>gone\<close>) do not
  match, the decoded chat state is \<open>Composing\<close>. When no child named after a chat state is
  in the chat-states namespace (they are all in foreign namespaces, or there is none),
  decoding yields \<open>None\<close>.
\<close>

theorem chat_state_decoded:
  "(state_matches e Composing \<and> \<not> state_matches e Active \<and> \<not> state_matches e Inactive \<and>
    \<not> state_matches e Gone \<longrightarrow> m_state (parse L e m) = Composing) \<and>
   (\<not> list_ex (\<lambda>i. hasChild e (chat_states i) ns_chat_states) known_states \<longrightarrow>
      m_state (decode L e) = None_State)"
proof (intro conjI impI)
  assume "state_matches e Composing \<and> \<not> state_matches e Active \<and>
    \<not> state_matches e Inactive \<and> \<not> state_matches e Gone"
  then have "find (state_matches e) known_states = Some Composing"
    by (simp add: known_states_def)
  then show "m_state (parse L e m) = Composing"
    by (simp add: parse_eq)
next
  assume "\<not> list_ex (\<lambda>i. hasChild e (chat_states i) ns_chat_states) known_states"
  then have "find (state_matches e) known_states = None"
    by (rule no_state_child_no_match)
  then show "m_state (decode L e) = None_State"
    by (simp add: decode_def parse_eq QXmppMessage_new_def)
qed

theorem chat_state_decoded_witness:
  "state_matches sample_composing Composing \<and> \<not> state_matches sample_composing Active \<and>
   \<not> state_matches sample_composing Inactive \<and> \<not> state_matches sample_composing Gone \<and>
   m_state (decode sample_lib sample_composing) = Composing \<and>
   \<not> list_ex (\<lambda>i. hasChild sample_foreign_state (chat_states i) ns_chat_states) known_states \<and>
   m_state (decode sample_lib sample_foreign_state) = None_State"
proof -
  have a: "state_matches sample_composing Composing \<and> \<not> state_matches sample_composing Active \<and>
   \<not> state_matches sample_composing Inactive \<and> \<not> state_matches sample_composing Gone"
    by (simp add: state_matches_def firstChildElement_def sample_composing_def)
  have b: "\<not> list_ex (\<lambda>i. hasChild sample_foreign_state (chat_states i) ns_chat_states)
      known_states"
    by (simp add: known_states_def hasChild_def sample_foreign_state_def ns_defs)
  show ?thesis
    using a b
      chat_state_decoded [of sample_composing sample_lib "QXmppMessage_new [] [] [] []"]
      chat_state_decoded [of sample_foreign_state sample_lib]
    by (simp add: decode_def)
qed

text \<open>
  C7 (as stated) fails: the element has a child named \<open>composing\<close> in the chat-states
  namespace, after a child of the same name in a foreign namespace; the decoded chat state is
  \<open>None\<close>.
\<close>

theorem second_composing_child_ignored:
  "Element ''composing'' ns_chat_states [(''xmlns'', ns_chat_states)] []
     \<in> set (children sample_two_composing) \<and>
   hasChild sample_two_composing ''composing'' ns_chat_states \<and>
   m_state (decode sample_lib sample_two_composing) = None_State \<and>
   m_state (decode sample_lib sample_two_composing) \<noteq> Composing"
  by (simp add: parse_defs ns_defs sample_two_composing_def hasChild_def)

section \<open>The order of the children written by the encoder\<close>

lemma find_after_occurrence:
  "\<exists>p. find_after pat (pre @ pat @ rest) = Some (p @ rest)"
proof (induction pre)
  case Nil
  show ?case
  proof (cases "pat @ rest")
    case Nil
    then show ?thesis by simp
  next
    case (Cons x xs)
    have "find_after pat (x # xs) = Some (drop (length pat) (x # xs))"
      unfolding Cons [symmetric] by (metis Cons find_after.simps(2) prefixI)
    then show ?thesis
      unfolding Cons [symmetric] by simp
  qed
next
  case (Cons y pre)
  show ?case
  proof (cases "prefix pat (y # pre @ pat @ rest)")
    case True
    have e: "y # pre @ pat @ rest = (y # pre @ pat) @ rest"
      by simp
    have "drop (length pat) (y # pre @ pat @ rest) =
        drop (length pat) (y # pre @ pat) @ rest"
      unfolding e drop_append by simp
    then show ?thesis
      using True by (metis append_Cons find_after.simps(2))
  next
    case False
    then show ?thesis
      using Cons.IH by simp
  qed
qed

lemma find_after_Some:
  "find_after pat xs = Some r \<Longrightarrow> \<exists>pre. xs = pre @ pat @ r"
proof (induction xs)
  case Nil
  then show ?case by (auto split: if_splits)
next
  case (Cons x xs)
  show ?case
  proof (cases "prefix pat (x # xs)")
    case True
    then have "r = drop (length pat) (x # xs)"
      using Cons.prems by simp
    moreover have "x # xs = pat @ drop (length pat) (x # xs)"
      using True by (metis append_eq_conv_conj prefixE)
    ultimately show ?thesis
      by (metis append_Nil)
  next
    case False
    then have "find_after pat xs = Some r"
      using Cons.prems by simp
    then obtain pre where "xs = pre @ pat @ r"
      using Cons.IH by blast
    then have "x # xs = (x # pre) @ pat @ r"
      by simp
    then show ?thesis
      by blast
  qed
qed

lemma emitted_in_order_iff:
  "emitted_in_order a b out \<longleftrightarrow> (\<exists>pre mid post. out = pre @ a @ mid @ b @ post)"
proof
  assume "emitted_in_order a b out"
  then obtain r s where r: "find_after a out = Some r" and s: "find_after b r = Some s"
    by (auto simp: emitted_in_order_def split: option.splits)
  from find_after_Some [OF r] obtain pre where 1: "out = pre @ a @ r"
    by blast
  from find_after_Some [OF s] obtain mid where 2: "r = mid @ b @ s"
    by blast
  show "\<exists>pre mid post. out = pre @ a @ mid @ b @ post"
    using 1 2 by blast
next
  assume "\<exists>pre mid post. out = pre @ a @ mid @ b @ post"
  then obtain pre mid post where o: "out = pre @ a @ mid @ b @ post"
    by blast
  obtain p where p: "find_after a out = Some (p @ mid @ b @ post)"
    unfolding o using find_after_occurrence [of a pre "mid @ b @ post"] by blast
  obtain q where "find_after b ((p @ mid) @ b @ post) = Some (q @ post)"
    using find_after_occurrence [of b "p @ mid" post] by blast
  then show "emitted_in_order a b out"
    by (simp add: emitted_in_order_def p)
qed

text \<open>
  C8 (as amended). For every message with \<open>attentionRequested = true\<close> and
  \<open>receiptForId = "msg1"\<close>, the encoder emits a \<open>received\<close> child (message-receipts
  namespace, \<open>id="msg1"\<close>) and an \<open>attention\<close> child (attention namespace), the
  \<open>received\<close> child before the \<open>attention\<close> child.
\<close>

theorem received_precedes_attention:
  assumes "m_attentionRequested m" and "m_receiptId m = ''msg1''"
  shows "emitted_in_order (received_child ''msg1'') attention_child (toXml L m)"
proof -
  have r: "toXml_received m = received_child ''msg1''"
    using assms by (simp add: toXml_received_def received_child_def)
  have a: "toXml_attention m = attention_child"
    using assms by (simp add: toXml_attention_def attention_child_def)
  have "toXml L m =
      ([StartElement ''message''] @ toXml_attributes m @ toXml_texts m @ toXml_error L m @
       toXml_chat_state m @ toXml_xhtml m @ toXml_stamp L m) @
      received_child ''msg1'' @ toXml_request m @ attention_child @
      (toXml_extensions m @ [EndElement])"
    by (simp add: toXml_def r a)
  then show ?thesis
    unfolding emitted_in_order_iff by blast
qed

theorem received_precedes_attention_witness:
  "m_attentionRequested sample_buzz \<and> m_receiptId sample_buzz = ''msg1'' \<and>
   emitted_in_order (received_child ''msg1'') attention_child (toXml sample_lib sample_buzz)"
proof -
  have a: "m_attentionRequested sample_buzz" and b: "m_receiptId sample_buzz = ''msg1''"
    by (simp_all add: sample_buzz_def setReceiptId_def setAttentionRequested_def)
  show ?thesis
    using a b received_precedes_attention [OF a b, of sample_lib] by simp
qed

text \<open>
  C8 (as stated) fails: in the output for such a message the \<open>attention\<close> child is not
  followed by the \<open>received\<close> child; it comes after it.
\<close>

theorem attention_not_before_received:
  "m_attentionRequested sample_buzz \<and> m_receiptId sample_buzz = ''msg1'' \<and>
   toXml sample_lib sample_buzz =
     [StartElement ''message'', Attribute ''type'' ''chat'',
      StartElement ''received'', Attribute ''xmlns'' ns_message_receipts,
      Attribute ''id'' ''msg1'', EndElement,
      StartElement ''attention'', Attribute ''xmlns'' ns_attention, EndElement,
      EndElement] \<and>
   \<not> emitted_in_order attention_child (received_child ''msg1'') (toXml sample_lib sample_buzz)"
proof -
  have x: "toXml sample_lib sample_buzz =
     [StartElement ''message'', Attribute ''type'' ''chat'',
      StartElement ''received'', Attribute ''xmlns'' ns_message_receipts,
      Attribute ''id'' ''msg1'', EndElement,
      StartElement ''attention'', Attribute ''xmlns'' ns_attention, EndElement,
      EndElement]"
    by (simp add: toXml_defs sample_buzz_def setReceiptId_def setAttentionRequested_def
        QXmppMessage_new_def)
  show ?thesis
    unfolding x
    by (simp add: sample_buzz_def setReceiptId_def setAttentionRequested_def
        QXmppMessage_new_def emitted_in_order_def attention_child_def received_child_def)
qed

section \<open>Decoding and encoding again\<close>

lemma foldl_attributes:
  "foldl writeEvent w (map (\<lambda>(k, v). Attribute k v) as) =
     w\<lparr>device := device w @ concat (map attributeBytes as)\<rparr>"
  by (induction as arbitrary: w) (auto simp: attributeBytes_def)

lemma foldl_nodes:
  assumes "\<And>k w. k \<in> set ks \<Longrightarrow>
      foldl writeEvent w (nodeToXml k) =
        w\<lparr>device := device w @ finishStartElement w @ node_bytes k, inStartElement := False\<rparr>"
  shows "foldl writeEvent w (concat (map nodeToXml ks)) =
     (if ks = [] then w
      else w\<lparr>device := device w @ finishStartElement w @ concat (map node_bytes ks),
              inStartElement := False\<rparr>)"
  using assms
proof (induction ks arbitrary: w)
  case Nil
  show ?case by simp
next
  case (Cons k ks)
  have k: "foldl writeEvent w (nodeToXml k) =
        w\<lparr>device := device w @ finishStartElement w @ node_bytes k, inStartElement := False\<rparr>"
    by (rule Cons.prems) simp
  have r: "foldl writeEvent w' (concat (map nodeToXml ks)) =
     (if ks = [] then w'
      else w'\<lparr>device := device w' @ finishStartElement w' @ concat (map node_bytes ks),
              inStartElement := False\<rparr>)" for w'
    by (rule Cons.IH) (simp add: Cons.prems)
  show ?case
    by (simp add: k r finishStartElement_def)
qed

lemma foldl_node:
  "foldl writeEvent w (nodeToXml n) =
     w\<lparr>device := device w @ finishStartElement w @ node_bytes n, inStartElement := False\<rparr>"
proof (induction n arbitrary: w)
  case (Text s)
  show ?case by simp
next
  case (Element n ns as ks)
  have c: "foldl writeEvent w' (concat (map nodeToXml ks)) =
     (if ks = [] then w'
      else w'\<lparr>device := device w' @ finishStartElement w' @ concat (map node_bytes ks),
              inStartElement := False\<rparr>)" for w'
    by (rule foldl_nodes) (rule Element.IH)
  show ?case
    by (simp add: foldl_attributes c finishStartElement_def)
qed

lemma xml_bytes_node: "xml_bytes (nodeToXml n) = node_bytes n"
  by (simp add: xml_bytes_def foldl_node finishStartElement_def)







































end
